theory Spec2Isabelle
  imports Complex_Main
begin

section \<open>Python values and exceptions\<close>

text \<open>
  The converter of \<^verbatim>\<open>gfauto/amber_converter.py\<close> works on text and on the values that
  \<^verbatim>\<open>json.loads\<close> returns. Text is a \<open>string\<close>; each \<open>char\<close> stands for one code point
  below 256. An exception is a value: every function that can raise returns
  \<open>error + 'a\<close>, with \<open>Inl\<close> for the exception. The two exceptions that the source
  constructs itself carry their message.
\<close>

datatype error =
    AssertionError string
  | ValueError string
  | KeyError
  | TypeError
  | IndexError
  | AttributeError

definition bindE :: "error + 'a \<Rightarrow> ('a \<Rightarrow> error + 'b) \<Rightarrow> error + 'b" where
  "bindE m f = (case m of Inl e \<Rightarrow> Inl e | Inr x \<Rightarrow> f x)"

text \<open>A comprehension whose element expression can raise: the first exception wins.\<close>

fun mapE :: "('a \<Rightarrow> error + 'b) \<Rightarrow> 'a list \<Rightarrow> error + 'b list" where
  "mapE f [] = Inr []"
| "mapE f (x # xs) = bindE (f x) (\<lambda>y. bindE (mapE f xs) (\<lambda>ys. Inr (y # ys)))"

text \<open>
  \<^verbatim>\<open>check(condition, exception)\<close> of \<^verbatim>\<open>gfauto.util\<close>.
  Modelled from the spec: the module \<^verbatim>\<open>gfauto/util.py\<close> is not among the sources; the
  specification calls a failed check fatal, so \<open>check\<close> raises the exception it is
  given when the condition is false and does nothing otherwise.
\<close>

definition check :: "bool \<Rightarrow> error \<Rightarrow> error + unit" where
  "check condition exception = (if condition then Inr () else Inl exception)"

text \<open>
  A value of \<^verbatim>\<open>json.loads\<close>. An object is the list of its items in the dictionary's
  iteration order, with distinct keys. A number written with a fraction or an exponent
  is a Python float: it carries its value, by which floats, integers and booleans
  compare, and the text \<^verbatim>\<open>str\<close> gives for it, which is taken as it is.
\<close>

datatype json =
    JNull
  | JBool bool
  | JInt int
  | JFloat rat string
  | JStr string
  | JArr "json list"
  | JObj "(string \<times> json) list"

subsection \<open>Text operations\<close>

definition newline :: char where
  "newline = CHR 0x0A"

text \<open>\<^verbatim>\<open>sep.join(xs)\<close>\<close>

fun join :: "string \<Rightarrow> string list \<Rightarrow> string" where
  "join sep [] = []"
| "join sep [x] = x"
| "join sep (x # y # ys) = x @ sep @ join sep (y # ys)"

text \<open>
  \<^verbatim>\<open>text.split("\n")\<close>, read from the left: a newline opens a new first line, any
  other character joins the first line of what follows. The result is never the empty
  list, so the second equation of \<open>cons_first\<close> is never used.
\<close>

fun cons_first :: "char \<Rightarrow> string list \<Rightarrow> string list" where
  "cons_first c (l # ls) = (c # l) # ls"
| "cons_first c [] = [[c]]"

fun split_lines :: "string \<Rightarrow> string list" where
  "split_lines [] = [[]]"
| "split_lines (c # cs) =
     (if c = newline then [] # split_lines cs else cons_first c (split_lines cs))"

text \<open>The code points below 256 for which \<^verbatim>\<open>str.isspace\<close> holds.\<close>

definition py_isspace :: "char \<Rightarrow> bool" where
  "py_isspace c =
     (let n = (of_char c :: nat)
      in (9 \<le> n \<and> n \<le> 13) \<or> (28 \<le> n \<and> n \<le> 32) \<or> n = 133 \<or> n = 160)"

text \<open>\<^verbatim>\<open>s.rstrip()\<close>\<close>

definition rstrip :: "string \<Rightarrow> string" where
  "rstrip s = rev (dropWhile py_isspace (rev s))"

text \<open>\<^verbatim>\<open>str(n)\<close> for an integer: decimal digits, with a minus sign below zero.\<close>

definition digit_char :: "nat \<Rightarrow> char" where
  "digit_char d = ''0123456789'' ! d"

fun str_nat :: "nat \<Rightarrow> string" where
  "str_nat n = (if n < 10 then [digit_char n] else str_nat (n div 10) @ [digit_char (n mod 10)])"

declare str_nat.simps [simp del]

definition str_int :: "int \<Rightarrow> string" where
  "str_int i = (if i < 0 then CHR ''-'' # str_nat (nat (- i)) else str_nat (nat i))"

text \<open>
  \<^verbatim>\<open>repr(s)\<close> for a string: double quotes when the text has a single quote and no
  double quote, single quotes otherwise; the backslash, the chosen quote, tab, newline
  and carriage return are escaped, and the other non-printable code points are written
  \<^verbatim>\<open>\xhh\<close>.
\<close>

definition py_isprintable :: "char \<Rightarrow> bool" where
  "py_isprintable c =
     (let n = (of_char c :: nat) in (32 \<le> n \<and> n < 127) \<or> (161 \<le> n \<and> n \<noteq> 173))"

definition hex_char :: "nat \<Rightarrow> char" where
  "hex_char d = ''0123456789abcdef'' ! d"

definition backslash :: char where
  "backslash = CHR 0x5C"

definition py_repr_char :: "char \<Rightarrow> char \<Rightarrow> string" where
  "py_repr_char q c =
     (if c = q \<or> c = backslash then [backslash, c]
      else if c = CHR 0x09 then [backslash, CHR ''t'']
      else if c = CHR 0x0A then [backslash, CHR ''n'']
      else if c = CHR 0x0D then [backslash, CHR ''r'']
      else if py_isprintable c then [c]
      else [backslash, CHR ''x'', hex_char (of_char c div 16), hex_char (of_char c mod 16)])"

definition py_repr_str :: "string \<Rightarrow> string" where
  "py_repr_str s =
     (let q = (if CHR 0x27 \<in> set s \<and> CHR 0x22 \<notin> set s then CHR 0x22 else CHR 0x27)
      in q # concat (map (py_repr_char q) s) @ [q])"

text \<open>\<^verbatim>\<open>repr(v)\<close> and \<^verbatim>\<open>str(v)\<close>, which is also what an f-string field formats.\<close>

fun py_repr :: "json \<Rightarrow> string" where
  "py_repr JNull = ''None''"
| "py_repr (JBool b) = (if b then ''True'' else ''False'')"
| "py_repr (JInt i) = str_int i"
| "py_repr (JFloat v s) = s"
| "py_repr (JStr s) = py_repr_str s"
| "py_repr (JArr xs) = ''['' @ join '', '' (map py_repr xs) @ '']''"
| "py_repr (JObj kvs) =
     ''{'' @ join '', '' (map (\<lambda>kv. py_repr_str (fst kv) @ '': '' @ py_repr (snd kv)) kvs) @ ''}''"

definition py_str :: "json \<Rightarrow> string" where
  "py_str v = (case v of JStr s \<Rightarrow> s | _ \<Rightarrow> py_repr v)"

subsection \<open>Dynamic operations on JSON values\<close>

text \<open>\<^verbatim>\<open>v[key]\<close> with a string key.\<close>

definition py_getitem :: "json \<Rightarrow> string \<Rightarrow> error + json" where
  "py_getitem v key =
     (case v of
        JObj kvs \<Rightarrow> (case map_of kvs key of None \<Rightarrow> Inl KeyError | Some x \<Rightarrow> Inr x)
      | _ \<Rightarrow> Inl TypeError)"

text \<open>\<^verbatim>\<open>v[i]\<close> with a non-negative integer index.\<close>

definition py_getitem_index :: "json \<Rightarrow> nat \<Rightarrow> error + json" where
  "py_getitem_index v i =
     (case v of
        JArr xs \<Rightarrow> (if i < length xs then Inr (xs ! i) else Inl IndexError)
      | JStr s \<Rightarrow> (if i < length s then Inr (JStr [s ! i]) else Inl IndexError)
      | JObj kvs \<Rightarrow> Inl KeyError
      | _ \<Rightarrow> Inl TypeError)"

text \<open>\<^verbatim>\<open>len(v)\<close>\<close>

definition py_len :: "json \<Rightarrow> error + nat" where
  "py_len v =
     (case v of
        JArr xs \<Rightarrow> Inr (length xs)
      | JStr s \<Rightarrow> Inr (length s)
      | JObj kvs \<Rightarrow> Inr (length kvs)
      | _ \<Rightarrow> Inl TypeError)"

text \<open>
  Iterating a value: the elements of a list, the characters of a string, the keys of a
  dictionary; nothing else is iterable.
\<close>

definition py_iter :: "json \<Rightarrow> error + json list" where
  "py_iter v =
     (case v of
        JArr xs \<Rightarrow> Inr xs
      | JStr s \<Rightarrow> Inr (map (\<lambda>c. JStr [c]) s)
      | JObj kvs \<Rightarrow> Inr (map (\<lambda>kv. JStr (fst kv)) kvs)
      | _ \<Rightarrow> Inl TypeError)"

text \<open>\<^verbatim>\<open>v.items()\<close> and \<^verbatim>\<open>v.keys()\<close> exist on a dictionary only.\<close>

definition py_items :: "json \<Rightarrow> error + (string \<times> json) list" where
  "py_items v = (case v of JObj kvs \<Rightarrow> Inr kvs | _ \<Rightarrow> Inl AttributeError)"

definition py_keys :: "json \<Rightarrow> error + string list" where
  "py_keys v = (case v of JObj kvs \<Rightarrow> Inr (map fst kvs) | _ \<Rightarrow> Inl AttributeError)"

text \<open>Lists and dictionaries are not hashable: they are neither set elements nor keys.\<close>

definition py_hashable :: "json \<Rightarrow> bool" where
  "py_hashable v = (case v of JArr xs \<Rightarrow> False | JObj kvs \<Rightarrow> False | _ \<Rightarrow> True)"

text \<open>
  Equality of hashable values: numbers (the booleans among them, as 0 and 1) compare by
  value, everything else by kind and content.
\<close>

definition py_number :: "json \<Rightarrow> rat option" where
  "py_number v =
     (case v of
        JBool b \<Rightarrow> Some (if b then 1 else 0)
      | JInt i \<Rightarrow> Some (of_int i)
      | JFloat x s \<Rightarrow> Some x
      | _ \<Rightarrow> None)"

definition py_eq :: "json \<Rightarrow> json \<Rightarrow> bool" where
  "py_eq a b =
     (case (py_number a, py_number b) of
        (Some x, Some y) \<Rightarrow> x = y
      | (None, None) \<Rightarrow> a = b
      | _ \<Rightarrow> False)"

text \<open>A set, built by adding the elements in turn; it keeps the first of equal elements.\<close>

definition py_set_add :: "json list \<Rightarrow> json \<Rightarrow> json list" where
  "py_set_add s x = (if list_ex (py_eq x) s then s else s @ [x])"

definition py_set :: "json list \<Rightarrow> json list" where
  "py_set xs = foldl py_set_add [] xs"


text \<open>
  Looking a value up in a dictionary whose keys are strings: an unhashable value raises,
  a value that is not a string is no key.
\<close>

definition table_lookup :: "(string \<times> string) list \<Rightarrow> json \<Rightarrow> error + string option" where
  "table_lookup table v =
     (if \<not> py_hashable v then Inl TypeError
      else Inr (case v of JStr s \<Rightarrow> map_of table s | _ \<Rightarrow> None))"

text \<open>
  The truth value of an optional text or list: \<^verbatim>\<open>None\<close> and the empty one are both false.
\<close>

definition nonempty :: "'a list option \<Rightarrow> 'a list option" where
  "nonempty x = (case x of None \<Rightarrow> None | Some v \<Rightarrow> (if v = [] then None else Some v))"

section \<open>Comments\<close>

definition AMBER_FENCE_TIMEOUT_MS :: nat where
  "AMBER_FENCE_TIMEOUT_MS = 60000"

definition get_spirv_opt_args_comment :: "string list \<Rightarrow> string option \<Rightarrow> string" where
  "get_spirv_opt_args_comment spirv_opt_args spirv_opt_hash =
     (if spirv_opt_args = [] then []
      else
        let result = ''# Optimized using spirv-opt with the following arguments:\<newline>'';
            args = map (\<lambda>arg. ''# '' @ [CHR 0x27] @ arg @ [CHR 0x27]) spirv_opt_args;
            result = result @ join ''\<newline>'' args;
            result = (case nonempty spirv_opt_hash of
                        Some h \<Rightarrow> result @ ''\<newline># spirv-opt commit hash: '' @ h
                      | None \<Rightarrow> result)
        in result @ ''\<newline>\<newline>'')"

record AmberfySettings =
  copyright_header_text :: "string option"
  add_generated_comment :: bool
  add_graphics_fuzz_comment :: bool
  short_description :: "string option"
  comment_text :: "string option"
  use_default_fence_timeout :: bool
  extra_commands :: "string option"
  spirv_opt_args :: "string list option"
  spirv_opt_hash :: "string option"

text \<open>
  The two loops of \<open>get_text_as_comment\<close>. \<^verbatim>\<open>while not lines[0]: lines.pop(0)\<close>
  reads \<^verbatim>\<open>lines[0]\<close> before each step, and that read raises on the empty list.
\<close>

fun pop_leading_empty :: "string list \<Rightarrow> error + string list" where
  "pop_leading_empty [] = Inl IndexError"
| "pop_leading_empty (l # ls) = (if l = [] then pop_leading_empty ls else Inr (l # ls))"

text \<open>\<^verbatim>\<open>while not lines[-1]: lines.pop()\<close>\<close>

function pop_trailing_empty :: "string list \<Rightarrow> error + string list" where
  "pop_trailing_empty ls =
     (if ls = [] then Inl IndexError
      else if last ls = [] then pop_trailing_empty (butlast ls)
      else Inr ls)"
  by pat_completeness auto
termination
  by (relation "measure length") auto

declare pop_trailing_empty.simps [simp del]

definition get_text_as_comment :: "string \<Rightarrow> error + string" where
  "get_text_as_comment txt =
     bindE (pop_leading_empty (split_lines txt)) (\<lambda>ls.
     bindE (pop_trailing_empty ls) (\<lambda>ls.
     Inr (join ''\<newline>'' (map (\<lambda>line. rstrip (''# '' @ line)) ls))))"

section \<open>The compute buffer\<close>

definition ssbo_types :: "(string \<times> string) list" where
  "ssbo_types =
     [(''int'', ''int32''),
      (''ivec2'', ''vec2<int32>''),
      (''ivec3'', ''vec3<int32>''),
      (''ivec4'', ''vec4<int32>''),
      (''uint'', ''uint32''),
      (''float'', ''float''),
      (''vec2'', ''vec2<float>''),
      (''vec3'', ''vec3<float>''),
      (''vec4'', ''vec4<float>'')]"

text \<open>
  \<^verbatim>\<open>{field["type"] for field in fields}\<close>: each field is subscripted and its type hashed
  in turn.
\<close>

definition field_type :: "json \<Rightarrow> error + json" where
  "field_type field =
     bindE (py_getitem field ''type'') (\<lambda>t. if py_hashable t then Inr t else Inl TypeError)"

definition amberscript_comp_buff_def :: "json \<Rightarrow> bool \<Rightarrow> error + string" where
  "amberscript_comp_buff_def comp_json make_empty_buffer =
     bindE (py_keys comp_json) (\<lambda>keys.
     bindE (check (''$compute'' \<in> set keys)
              (AssertionError (''Cannot find '' @ [CHR 0x27] @ ''$compute'' @ [CHR 0x27] @ '' key in JSON file''))) (\<lambda>_.
     bindE (py_getitem comp_json ''$compute'') (\<lambda>compute_info.
     bindE (bindE (py_getitem compute_info ''buffer'') (\<lambda>b. py_getitem b ''fields'')) (\<lambda>fields.
     bindE (py_len fields) (\<lambda>n.
     bindE (check (n > 0) (AssertionError ''Compute shader test with empty SSBO'')) (\<lambda>_.
     bindE (bindE (py_iter fields) (mapE field_type)) (\<lambda>types.
     let field_types_set = py_set types in
     bindE (check (length field_types_set = 1) (AssertionError ''All field types must be the same'')) (\<lambda>_.
     bindE (bindE (py_getitem_index fields 0) (\<lambda>f. py_getitem f ''type'')) (\<lambda>ssbo_type.
     bindE (table_lookup ssbo_types ssbo_type) (\<lambda>found.
     case found of
       None \<Rightarrow> Inl (ValueError (''Unsupported SSBO datum type: '' @ py_str ssbo_type))
     | Some ssbo_type_amber \<Rightarrow>
     bindE (bindE (py_iter fields) (mapE (\<lambda>field. py_getitem field ''data''))) (\<lambda>field_data.
     bindE (mapE py_iter field_data) (\<lambda>chained.
     let field_data_flattened = concat chained;
         field_data_flattened_str = map py_str field_data_flattened
     in
       if make_empty_buffer then
         (case field_data_flattened_str of
            [] \<Rightarrow> Inl IndexError
          | first # _ \<Rightarrow>
              Inr (''BUFFER {} DATA_TYPE '' @ ssbo_type_amber @ '' SIZE ''
                   @ str_nat (length field_data_flattened_str) @ '' '' @ first @ ''\<newline>''))
       else
         Inr (''BUFFER {} DATA_TYPE '' @ ssbo_type_amber @ '' DATA\<newline>''
              @ '' '' @ join '' '' field_data_flattened_str @ ''\<newline>''
              @ ''END\<newline>'')))))))))))))"

definition amberscript_comp_num_groups_def :: "json \<Rightarrow> error + string" where
  "amberscript_comp_num_groups_def shader_job_info =
     bindE (bindE (py_getitem shader_job_info ''$compute'') (\<lambda>c. py_getitem c ''num_groups'')) (\<lambda>num_groups.
     bindE (py_iter num_groups) (\<lambda>dimensions.
     let num_groups_str = map py_str dimensions
     in Inr (join '' '' num_groups_str)))"

section \<open>Uniforms\<close>

fun uniform_buffer_bind_loop :: "string \<Rightarrow> (string \<times> json) list \<Rightarrow> string \<Rightarrow> error + string" where
  "uniform_buffer_bind_loop prefix [] result = Inr result"
| "uniform_buffer_bind_loop prefix ((name, entry) # rest) result =
     (if name = ''$compute'' then uniform_buffer_bind_loop prefix rest result
      else
        bindE (py_getitem entry ''binding'') (\<lambda>binding.
        uniform_buffer_bind_loop prefix rest
          (result @ ''  BIND BUFFER '' @ prefix @ ''_'' @ name
             @ '' AS uniform DESCRIPTOR_SET 0 BINDING '' @ py_str binding @ ''\<newline>'')))"

definition amberscript_uniform_buffer_bind :: "json \<Rightarrow> string \<Rightarrow> error + string" where
  "amberscript_uniform_buffer_bind uniforms prefix =
     (let result = [] in
      bindE (py_items uniforms) (\<lambda>items. uniform_buffer_bind_loop prefix items result))"

definition uniform_types :: "(string \<times> string) list" where
  "uniform_types =
     [(''glUniform1i'', ''int32''),
      (''glUniform2i'', ''vec2<int32>''),
      (''glUniform3i'', ''vec3<int32>''),
      (''glUniform4i'', ''vec4<int32>''),
      (''glUniform1f'', ''float''),
      (''glUniform2f'', ''vec2<float>''),
      (''glUniform3f'', ''vec3<float>''),
      (''glUniform4f'', ''vec4<float>''),
      (''glUniformMatrix2fv'', ''mat2x2<float>''),
      (''glUniformMatrix2x3fv'', ''mat2x3<float>''),
      (''glUniformMatrix2x4fv'', ''mat2x4<float>''),
      (''glUniformMatrix3x2fv'', ''mat3x2<float>''),
      (''glUniformMatrix3fv'', ''mat3x3<float>''),
      (''glUniformMatrix3x4fv'', ''mat3x4<float>''),
      (''glUniformMatrix4x2fv'', ''mat4x2<float>''),
      (''glUniformMatrix4x3fv'', ''mat4x3<float>''),
      (''glUniformMatrix4fv'', ''mat4x4<float>'')]"

text \<open>
  \<^verbatim>\<open>raise ValueError("Error: unknown uniform type for function: " + func)\<close>: the
  concatenation itself raises when \<^verbatim>\<open>func\<close> is not a string.
\<close>

definition unknown_uniform_type :: "json \<Rightarrow> error" where
  "unknown_uniform_type func =
     (case func of
        JStr f \<Rightarrow> ValueError (''Error: unknown uniform type for function: '' @ f)
      | _ \<Rightarrow> TypeError)"

fun uniform_buffer_def_loop :: "string \<Rightarrow> (string \<times> json) list \<Rightarrow> string \<Rightarrow> error + string" where
  "uniform_buffer_def_loop prefix [] result = Inr result"
| "uniform_buffer_def_loop prefix ((name, entry) # rest) result =
     (if name = ''$compute'' then uniform_buffer_def_loop prefix rest result
      else
        bindE (py_getitem entry ''func'') (\<lambda>func.
        bindE (table_lookup uniform_types func) (\<lambda>found.
        case found of
          None \<Rightarrow> Inl (unknown_uniform_type func)
        | Some uniform_type \<Rightarrow>
            let result = result @ ''# '' @ name @ ''\<newline>'';
                result = result @ ''BUFFER '' @ prefix @ ''_'' @ name
                           @ '' DATA_TYPE '' @ uniform_type @ '' DATA\<newline>''
            in
              bindE (bindE (py_getitem entry ''args'') py_iter) (\<lambda>args.
              let result = foldl (\<lambda>result arg. result @ '' '' @ py_str arg) result args;
                  result = result @ ''\<newline>'';
                  result = result @ ''END\<newline>''
              in uniform_buffer_def_loop prefix rest result))))"

definition amberscript_uniform_buffer_def :: "json \<Rightarrow> string \<Rightarrow> error + string" where
  "amberscript_uniform_buffer_def uniforms prefix =
     (let result = ''# uniforms for '' @ prefix @ ''\<newline>'';
          result = result @ ''\<newline>''
      in bindE (py_items uniforms) (\<lambda>items. uniform_buffer_def_loop prefix items result))"

definition translate_type_for_amber :: "string \<Rightarrow> string" where
  "translate_type_for_amber type_name = (if type_name = ''bool'' then ''uint'' else type_name)"

section \<open>Shaders and shader jobs\<close>

datatype ShaderType = FRAGMENT | VERTEX | COMPUTE

definition ShaderType_value :: "ShaderType \<Rightarrow> string" where
  "ShaderType_value t =
     (case t of FRAGMENT \<Rightarrow> ''fragment'' | VERTEX \<Rightarrow> ''vertex'' | COMPUTE \<Rightarrow> ''compute'')"

record Shader =
  shader_type :: ShaderType
  shader_spirv_asm :: "string option"
  shader_source :: "string option"
  processing_info :: string

record ShaderJob =
  name_prefix :: string
  uniform_definitions :: string
  uniform_bindings :: string

record ComputeShaderJob = ShaderJob +
  compute_shader :: Shader
  initial_buffer_definition_template :: string
  empty_buffer_definition_template :: string
  num_groups_def :: string

record GraphicsShaderJob = ShaderJob +
  vertex_shader :: Shader
  fragment_shader :: Shader

text \<open>
  A shader job as the program holds it: an instance of the base class or of one of its
  two subclasses, which \<^verbatim>\<open>isinstance\<close> tells apart.
\<close>

datatype shader_job =
    PlainJob ShaderJob
  | ComputeJob ComputeShaderJob
  | GraphicsJob GraphicsShaderJob

record ShaderJobBasedAmberTest =
  reference :: "shader_job option"
  variant :: shader_job

section \<open>The script\<close>

definition get_amber_script_header :: "AmberfySettings \<Rightarrow> error + string" where
  "get_amber_script_header amberfy_settings =
     (let result = ''#!amber\<newline>'' in
      bindE (case nonempty (copyright_header_text amberfy_settings) of
               Some t \<Rightarrow>
                 bindE (get_text_as_comment t) (\<lambda>c. Inr (result @ ''\<newline>'' @ c @ ''\<newline>\<newline>''))
             | None \<Rightarrow> Inr result) (\<lambda>result.
      let result = (if add_generated_comment amberfy_settings
                    then result @ ''\<newline># Generated.\<newline>\<newline>'' else result);
          result = (if add_graphics_fuzz_comment amberfy_settings
                    then result @ ''\<newline># A test for a bug found by GraphicsFuzz.\<newline>'' else result);
          result = (case nonempty (short_description amberfy_settings) of
                      Some d \<Rightarrow> result @ ''\<newline># Short description: '' @ d @ ''\<newline>''
                    | None \<Rightarrow> result)
      in
      bindE (case nonempty (comment_text amberfy_settings) of
               Some t \<Rightarrow>
                 bindE (get_text_as_comment t) (\<lambda>c. Inr (result @ ''\<newline>'' @ c @ ''\<newline>''))
             | None \<Rightarrow> Inr result) (\<lambda>result.
      let result = (case nonempty (spirv_opt_args amberfy_settings) of
                      Some args \<Rightarrow>
                        result @ ''\<newline>''
                          @ get_spirv_opt_args_comment args (spirv_opt_hash amberfy_settings)
                          @ ''\<newline>''
                    | None \<Rightarrow> result);
          result = (if \<not> use_default_fence_timeout amberfy_settings
                    then result @ ''\<newline>SET ENGINE_DATA fence_timeout_ms ''
                           @ str_nat AMBER_FENCE_TIMEOUT_MS @ ''\<newline>''
                    else result)
      in Inr result)))"

definition get_amber_script_shader_def :: "Shader \<Rightarrow> string \<Rightarrow> error + string" where
  "get_amber_script_shader_def shader name =
     (let result = [] in
      bindE (case nonempty (shader_source shader) of
               Some src \<Rightarrow>
                 bindE (get_text_as_comment src) (\<lambda>c.
                 Inr (result @ ''\<newline># '' @ name @ '' is derived from the following GLSL:\<newline>'' @ c))
             | None \<Rightarrow> Inr result) (\<lambda>result.
      case nonempty (shader_spirv_asm shader) of
        Some asm \<Rightarrow>
          Inr (result @ ''\<newline>SHADER '' @ ShaderType_value (shader_type shader) @ '' '' @ name
               @ '' SPIRV-ASM\<newline>'' @ asm @ ''END\<newline>'')
      | None \<Rightarrow>
          Inr (result @ ''\<newline>SHADER '' @ ShaderType_value (shader_type shader) @ '' '' @ name
               @ '' PASSTHROUGH\<newline>'')))"

text \<open>The body of the loop over the jobs: what one job adds to the script.\<close>

definition graphics_job_body :: "GraphicsShaderJob \<Rightarrow> string \<Rightarrow> error + string" where
  "graphics_job_body job result =
     (let prefix = name_prefix job;
          vertex_shader_name = prefix @ ''_vertex_shader'';
          fragment_shader_name = prefix @ ''_fragment_shader''
      in
      bindE (get_amber_script_shader_def (vertex_shader job) vertex_shader_name) (\<lambda>v.
      let result = result @ v in
      bindE (get_amber_script_shader_def (fragment_shader job) fragment_shader_name) (\<lambda>f.
      let result = result @ f;
          result = result @ ''\<newline>'';
          result = result @ uniform_definitions job;
          result = result @ ''\<newline>BUFFER '' @ prefix @ ''_framebuffer FORMAT B8G8R8A8_UNORM\<newline>'';
          result = result @ ''\<newline>PIPELINE graphics '' @ prefix @ ''_pipeline\<newline>'';
          result = result @ ''  ATTACH '' @ vertex_shader_name @ ''\<newline>'';
          result = result @ ''  ATTACH '' @ fragment_shader_name @ ''\<newline>'';
          result = result @ ''  FRAMEBUFFER_SIZE 256 256\<newline>'';
          result = result @ ''  BIND BUFFER '' @ prefix @ ''_framebuffer AS color LOCATION 0\<newline>'';
          result = result @ uniform_bindings job;
          result = result @ ''END\<newline>'';
          result = result @ ''CLEAR_COLOR '' @ prefix @ ''_pipeline 0 0 0 255\<newline>'';
          result = result @ ''\<newline>CLEAR '' @ prefix @ ''_pipeline\<newline>'';
          result = result @ ''RUN '' @ prefix @ ''_pipeline DRAW_RECT POS 0 0 SIZE 256 256\<newline>'';
          result = result @ ''\<newline>''
      in Inr result)))"

fun graphics_jobs_loop :: "GraphicsShaderJob list \<Rightarrow> string \<Rightarrow> error + string" where
  "graphics_jobs_loop [] result = Inr result"
| "graphics_jobs_loop (job # jobs) result =
     bindE (graphics_job_body job result) (graphics_jobs_loop jobs)"

text \<open>
  The loop over \<^verbatim>\<open>range(1, len(jobs))\<close>: the directives it appends, one for each index.
\<close>

definition framebuffer_comparisons :: "GraphicsShaderJob list \<Rightarrow> string list" where
  "framebuffer_comparisons jobs =
     map (\<lambda>pipeline_index.
            let prefix_0 = name_prefix (jobs ! 0);
                prefix_1 = name_prefix (jobs ! pipeline_index)
            in ''EXPECT '' @ prefix_0 @ ''_framebuffer RMSE_BUFFER '' @ prefix_1
                 @ ''_framebuffer TOLERANCE 7'')
         [1 ..< length jobs]"

definition graphics_shader_job_amber_test_to_amber_script ::
  "ShaderJobBasedAmberTest \<Rightarrow> AmberfySettings \<Rightarrow> error + string" where
  "graphics_shader_job_amber_test_to_amber_script shader_job_amber_test amberfy_settings =
     (case variant shader_job_amber_test of
        GraphicsJob v \<Rightarrow>
          bindE (get_amber_script_header amberfy_settings) (\<lambda>result.
          let jobs = [v] in
          bindE (case reference shader_job_amber_test of
                   None \<Rightarrow> Inr jobs
                 | Some (GraphicsJob r) \<Rightarrow> Inr (r # jobs)
                 | Some _ \<Rightarrow> Inl (AssertionError [])) (\<lambda>jobs.
          bindE (graphics_jobs_loop jobs result) (\<lambda>result.
          let result = result @ concat (framebuffer_comparisons jobs);
              result = (case nonempty (extra_commands amberfy_settings) of
                          Some extra \<Rightarrow> result @ extra
                        | None \<Rightarrow> result)
          in Inr result)))
      | _ \<Rightarrow> Inl (AssertionError []))"


section \<open>Inputs and expected texts\<close>

text \<open>
  The definitions of this section are not functions of the source: they name the inputs
  the properties below speak about and the texts the converter is expected to produce.
\<close>

subsection \<open>Compute metadata\<close>

text \<open>
  The field list of a document's \<^verbatim>\<open>$compute\<close> block, when the block is there and
  \<^verbatim>\<open>buffer.fields\<close> is a list; the type name and the data list of a field, when the field
  has them; and all data of the fields in one sequence.
\<close>

definition compute_fields :: "json \<Rightarrow> json list option" where
  "compute_fields comp_json =
     (case bindE (py_getitem comp_json ''$compute'') (\<lambda>c.
           bindE (py_getitem c ''buffer'') (\<lambda>b. py_getitem b ''fields'')) of
        Inr (JArr fs) \<Rightarrow> Some fs
      | _ \<Rightarrow> None)"

definition field_type_name :: "json \<Rightarrow> string option" where
  "field_type_name field = (case py_getitem field ''type'' of Inr (JStr t) \<Rightarrow> Some t | _ \<Rightarrow> None)"

definition field_data_list :: "json \<Rightarrow> json list option" where
  "field_data_list field = (case py_getitem field ''data'' of Inr (JArr d) \<Rightarrow> Some d | _ \<Rightarrow> None)"

definition flattened_data :: "json list \<Rightarrow> json list" where
  "flattened_data fs =
     concat (map (\<lambda>field. case field_data_list field of Some d \<Rightarrow> d | None \<Rightarrow> []) fs)"

text \<open>
  A document with a \<^verbatim>\<open>$compute\<close> block of the given group counts and fields, and a field
  of a given type and data.
\<close>

definition compute_job :: "json \<Rightarrow> json list \<Rightarrow> json" where
  "compute_job num_groups fs =
     JObj [(''$compute'', JObj [(''num_groups'', num_groups), (''buffer'', JObj [(''fields'', JArr fs)])])]"

definition ssbo_field :: "string \<Rightarrow> json list \<Rightarrow> json" where
  "ssbo_field t d = JObj [(''type'', JStr t), (''data'', JArr d)]"

subsection \<open>Uniforms\<close>

text \<open>
  The setter name and the argument list of a uniform entry, when the entry has them, and
  the type token the table gives for the setter. An item of the uniform map is a uniform
  unless its key is the reserved \<^verbatim>\<open>$compute\<close>.
\<close>

definition entry_func :: "json \<Rightarrow> string option" where
  "entry_func entry = (case py_getitem entry ''func'' of Inr (JStr f) \<Rightarrow> Some f | _ \<Rightarrow> None)"

definition entry_args :: "json \<Rightarrow> json list option" where
  "entry_args entry = (case py_getitem entry ''args'' of Inr (JArr as) \<Rightarrow> Some as | _ \<Rightarrow> None)"

definition setter_token :: "json \<Rightarrow> string option" where
  "setter_token entry = (case entry_func entry of Some f \<Rightarrow> map_of uniform_types f | None \<Rightarrow> None)"

definition is_uniform :: "string \<times> json \<Rightarrow> bool" where
  "is_uniform kv = (fst kv \<noteq> ''$compute'')"

text \<open>
  What one pass of the loop of \<open>amberscript_uniform_buffer_def\<close> adds for an item: the
  declaration of a buffer of the given type with the arguments as its data, or the
  exception the pass raises. Likewise the binding directive of
  \<open>amberscript_uniform_buffer_bind\<close>.
\<close>

definition declaration_text :: "string \<Rightarrow> string \<Rightarrow> string \<Rightarrow> json list \<Rightarrow> string" where
  "declaration_text prefix name uniform_type args =
     ''# '' @ name @ ''\<newline>''
     @ ''BUFFER '' @ prefix @ ''_'' @ name @ '' DATA_TYPE '' @ uniform_type @ '' DATA\<newline>''
     @ concat (map (\<lambda>arg. '' '' @ py_str arg) args)
     @ ''\<newline>''
     @ ''END\<newline>''"

definition uniform_declaration :: "string \<Rightarrow> string \<times> json \<Rightarrow> error + string" where
  "uniform_declaration prefix kv =
     bindE (py_getitem (snd kv) ''func'') (\<lambda>func.
     bindE (table_lookup uniform_types func) (\<lambda>found.
     case found of
       None \<Rightarrow> Inl (unknown_uniform_type func)
     | Some uniform_type \<Rightarrow>
         bindE (bindE (py_getitem (snd kv) ''args'') py_iter) (\<lambda>args.
         Inr (declaration_text prefix (fst kv) uniform_type args))))"

definition uniform_binding :: "string \<Rightarrow> string \<times> json \<Rightarrow> error + string" where
  "uniform_binding prefix kv =
     bindE (py_getitem (snd kv) ''binding'') (\<lambda>binding.
     Inr (''  BIND BUFFER '' @ prefix @ ''_'' @ fst kv
          @ '' AS uniform DESCRIPTOR_SET 0 BINDING '' @ py_str binding @ ''\<newline>''))"

text \<open>
  The supported setters in the specification's words: the integer and the float setters
  of one to four components, then the matrix setters for every number of columns and of
  rows from two to four. A scalar has the base type's token, a vector of \<open>n\<close> components
  \<^verbatim>\<open>vecn<base>\<close>, a matrix \<^verbatim>\<open>matcxr<float>\<close>; a square matrix setter names its size once.
\<close>

definition vector_token :: "nat \<Rightarrow> string \<Rightarrow> string" where
  "vector_token n base = (if n = 1 then base else ''vec'' @ str_nat n @ ''<'' @ base @ ''>'')"

definition matrix_setter :: "nat \<Rightarrow> nat \<Rightarrow> string \<times> string" where
  "matrix_setter c r =
     (''glUniformMatrix'' @ (if c = r then str_nat c else str_nat c @ ''x'' @ str_nat r) @ ''fv'',
      ''mat'' @ str_nat c @ ''x'' @ str_nat r @ ''<float>'')"

definition supported_setters :: "(string \<times> string) list" where
  "supported_setters =
     map (\<lambda>n. (''glUniform'' @ str_nat n @ ''i'', vector_token n ''int32'')) [1, 2, 3, 4]
     @ map (\<lambda>n. (''glUniform'' @ str_nat n @ ''f'', vector_token n ''float'')) [1, 2, 3, 4]
     @ concat (map (\<lambda>c. map (matrix_setter c) [2, 3, 4]) [2, 3, 4])"

text \<open>
  A uniform entry with the three keys of the job format.
\<close>

definition uniform_entry :: "string \<Rightarrow> json list \<Rightarrow> int \<Rightarrow> json" where
  "uniform_entry func args binding =
     JObj [(''func'', JStr func), (''args'', JArr args), (''binding'', JInt binding)]"

subsection \<open>Comments and the header\<close>

text \<open>
  The comment block in the specification's words: the lines of the text without the
  empty lines at its start and at its end, each line behind \<^verbatim>\<open>#\<close> and a space, with
  the white space at the line's end removed. A text has only empty lines when it is
  empty or made of newlines alone.
\<close>

definition strip_empty_lines :: "string list \<Rightarrow> string list" where
  "strip_empty_lines ls = rev (dropWhile (\<lambda>l. l = []) (rev (dropWhile (\<lambda>l. l = []) ls)))"

definition comment_block :: "string \<Rightarrow> string" where
  "comment_block txt =
     join ''\<newline>'' (map (\<lambda>line. rstrip (''# '' @ line)) (strip_empty_lines (split_lines txt)))"

definition only_empty_lines :: "string \<Rightarrow> bool" where
  "only_empty_lines txt = list_all (\<lambda>l. l = []) (split_lines txt)"

text \<open>
  The sections of the header, each as the block of \<open>get_amber_script_header\<close> that
  emits it, as a function of the settings that block reads. A section that is switched
  off is the empty text. The two sections that render a comment block can raise.
\<close>

definition copyright_section :: "string option \<Rightarrow> error + string" where
  "copyright_section x =
     (case nonempty x of
        Some t \<Rightarrow> bindE (get_text_as_comment t) (\<lambda>c. Inr (''\<newline>'' @ c @ ''\<newline>\<newline>''))
      | None \<Rightarrow> Inr [])"

definition generated_section :: "bool \<Rightarrow> string" where
  "generated_section b = (if b then ''\<newline># Generated.\<newline>\<newline>'' else [])"

definition graphics_fuzz_section :: "bool \<Rightarrow> string" where
  "graphics_fuzz_section b = (if b then ''\<newline># A test for a bug found by GraphicsFuzz.\<newline>'' else [])"

definition short_description_section :: "string option \<Rightarrow> string" where
  "short_description_section x =
     (case nonempty x of Some d \<Rightarrow> ''\<newline># Short description: '' @ d @ ''\<newline>'' | None \<Rightarrow> [])"

definition comment_section :: "string option \<Rightarrow> error + string" where
  "comment_section x =
     (case nonempty x of
        Some t \<Rightarrow> bindE (get_text_as_comment t) (\<lambda>c. Inr (''\<newline>'' @ c @ ''\<newline>''))
      | None \<Rightarrow> Inr [])"

definition spirv_opt_section :: "string list option \<Rightarrow> string option \<Rightarrow> string" where
  "spirv_opt_section x h =
     (case nonempty x of
        Some args \<Rightarrow> ''\<newline>'' @ get_spirv_opt_args_comment args h @ ''\<newline>''
      | None \<Rightarrow> [])"

definition fence_timeout_section :: "bool \<Rightarrow> string" where
  "fence_timeout_section b =
     (if \<not> b then ''\<newline>SET ENGINE_DATA fence_timeout_ms '' @ str_nat AMBER_FENCE_TIMEOUT_MS @ ''\<newline>''
      else [])"

text \<open>
  The sections in the order the function emits them, the format marker first.
\<close>

definition header_sections :: "AmberfySettings \<Rightarrow> (error + string) list" where
  "header_sections s =
     [Inr ''#!amber\<newline>'',
      copyright_section (copyright_header_text s),
      Inr (generated_section (add_generated_comment s)),
      Inr (graphics_fuzz_section (add_graphics_fuzz_comment s)),
      Inr (short_description_section (short_description s)),
      comment_section (comment_text s),
      Inr (spirv_opt_section (spirv_opt_args s) (spirv_opt_hash s)),
      Inr (fence_timeout_section (use_default_fence_timeout s))]"

text \<open>
  The settings as \<^verbatim>\<open>AmberfySettings()\<close> constructs them.
\<close>

definition default_settings :: AmberfySettings where
  "default_settings =
     \<lparr>copyright_header_text = None, add_generated_comment = False,
      add_graphics_fuzz_comment = False, short_description = None, comment_text = None,
      use_default_fence_timeout = False, extra_commands = None, spirv_opt_args = None,
      spirv_opt_hash = None\<rparr>"

subsection \<open>Graphics jobs\<close>

text \<open>
  The comparison directive for two name prefixes, the first job's prefix first.
\<close>

definition comparison_directive :: "string \<Rightarrow> string \<Rightarrow> string" where
  "comparison_directive first_prefix other_prefix =
     ''EXPECT '' @ first_prefix @ ''_framebuffer RMSE_BUFFER '' @ other_prefix
       @ ''_framebuffer TOLERANCE 7''"

text \<open>
  A graphics job without a vertex shader of its own, and the text the assembler emits for
  it.
\<close>

definition example_graphics_job :: "string \<Rightarrow> GraphicsShaderJob" where
  "example_graphics_job prefix =
     \<lparr>name_prefix = prefix,
      uniform_definitions = ''# uniforms for '' @ prefix @ ''\<newline>\<newline>'',
      uniform_bindings = [],
      vertex_shader =
        \<lparr>shader_type = VERTEX, shader_spirv_asm = None, shader_source = None,
         processing_info = []\<rparr>,
      fragment_shader =
        \<lparr>shader_type = FRAGMENT, shader_spirv_asm = Some ''OpNop\<newline>'', shader_source = None,
         processing_info = []\<rparr>\<rparr>"

definition example_job_text :: "string \<Rightarrow> string" where
  "example_job_text prefix =
     ''\<newline>SHADER vertex '' @ prefix @ ''_vertex_shader PASSTHROUGH\<newline>''
     @ ''\<newline>SHADER fragment '' @ prefix @ ''_fragment_shader SPIRV-ASM\<newline>OpNop\<newline>END\<newline>''
     @ ''\<newline># uniforms for '' @ prefix @ ''\<newline>\<newline>''
     @ ''\<newline>BUFFER '' @ prefix @ ''_framebuffer FORMAT B8G8R8A8_UNORM\<newline>''
     @ ''\<newline>PIPELINE graphics '' @ prefix @ ''_pipeline\<newline>''
     @ ''  ATTACH '' @ prefix @ ''_vertex_shader\<newline>''
     @ ''  ATTACH '' @ prefix @ ''_fragment_shader\<newline>''
     @ ''  FRAMEBUFFER_SIZE 256 256\<newline>''
     @ ''  BIND BUFFER '' @ prefix @ ''_framebuffer AS color LOCATION 0\<newline>''
     @ ''END\<newline>''
     @ ''CLEAR_COLOR '' @ prefix @ ''_pipeline 0 0 0 255\<newline>''
     @ ''\<newline>CLEAR '' @ prefix @ ''_pipeline\<newline>''
     @ ''RUN '' @ prefix @ ''_pipeline DRAW_RECT POS 0 0 SIZE 256 256\<newline>''
     @ ''\<newline>''"

section \<open>Auxiliary facts\<close>

subsection \<open>Exceptions and sets\<close>

lemma str_nat_digit: "n < 10 \<Longrightarrow> str_nat n = [digit_char n]"
  by (simp add: str_nat.simps)

lemma bindE_Inr [simp]: "bindE (Inr x) f = f x"
  by (simp add: bindE_def)

lemma bindE_Inl [simp]: "bindE (Inl e) f = Inl e"
  by (simp add: bindE_def)

lemma mapE_all_Inr: "(\<And>x. x \<in> set xs \<Longrightarrow> f x = Inr (g x)) \<Longrightarrow> mapE f xs = Inr (map g xs)"
  by (induction xs) simp_all

lemma mapE_error:
  "\<exists>x\<in>set xs. \<exists>e. f x = Inl e \<Longrightarrow> \<exists>x\<in>set xs. \<exists>e. f x = Inl e \<and> mapE f xs = Inl e"
proof (induction xs)
  case Nil
  then show ?case by simp
next
  case (Cons x xs)
  show ?case
  proof (cases "f x")
    case (Inl e)
    then show ?thesis by auto
  next
    case (Inr y)
    with Cons.prems have "\<exists>x\<in>set xs. \<exists>e. f x = Inl e" by auto
    from Cons.IH [OF this] show ?thesis
      by (auto simp: Inr)
  qed
qed

lemma foldl_append_args:
  "foldl (\<lambda>result arg. result @ f arg) result args = result @ concat (map f args)"
  by (induction args arbitrary: result) simp_all

text \<open>
  A set of strings has as many elements as there are distinct strings.
\<close>

lemma py_eq_JStr [simp]: "py_eq (JStr a) (JStr b) \<longleftrightarrow> a = b"
  by (simp add: py_eq_def py_number_def)

lemma list_ex_py_eq_JStr: "list_ex (py_eq (JStr t)) (map JStr us) \<longleftrightarrow> t \<in> set us"
  by (induction us) auto

lemma py_set_add_JStr:
  "py_set_add (map JStr us) (JStr t) = map JStr (if t \<in> set us then us else us @ [t])"
  by (simp add: py_set_add_def list_ex_py_eq_JStr)

lemma foldl_py_set_add_JStr:
  "distinct us \<Longrightarrow>
   \<exists>vs. foldl py_set_add (map JStr us) (map JStr ts) = map JStr vs \<and> distinct vs \<and>
        set vs = set us \<union> set ts"
proof (induction ts arbitrary: us)
  case Nil
  then show ?case by auto
next
  case (Cons t ts)
  let ?us = "if t \<in> set us then us else us @ [t]"
  have d: "distinct ?us" using Cons.prems by simp
  from Cons.IH [OF d] obtain vs where
    "foldl py_set_add (map JStr ?us) (map JStr ts) = map JStr vs" "distinct vs"
    "set vs = set ?us \<union> set ts"
    by blast
  then show ?case
    by (intro exI [of _ vs]) (auto simp: py_set_add_JStr split: if_splits)
qed

lemma length_py_set_JStr: "length (py_set (map JStr ts)) = card (set ts)"
proof -
  from foldl_py_set_add_JStr [of "[]" ts] obtain vs where
    "py_set (map JStr ts) = map JStr vs" "distinct vs" "set vs = set ts"
    by (auto simp: py_set_def)
  then show ?thesis
    by (simp add: distinct_card [symmetric])
qed

lemma table_lookup_JStr: "table_lookup table (JStr t) = Inr (map_of table t)"
  by (simp add: table_lookup_def py_hashable_def)

subsection \<open>The compute buffer\<close>

lemma field_type_name_Some:
  "field_type_name f = Some t \<Longrightarrow> py_getitem f ''type'' = Inr (JStr t)"
  by (auto simp: field_type_name_def split: sum.splits json.splits)

lemma field_data_list_Some:
  "field_data_list f = Some d \<Longrightarrow> py_getitem f ''data'' = Inr (JArr d)"
  by (auto simp: field_data_list_def split: sum.splits json.splits)

lemma field_type_JStr: "field_type_name f = Some t \<Longrightarrow> field_type f = Inr (JStr t)"
  by (simp add: field_type_def field_type_name_Some py_hashable_def)

lemma compute_fields_Some:
  assumes "compute_fields comp_json = Some fs"
  obtains kvs c where "comp_json = JObj kvs" "map_of kvs ''$compute'' = Some c"
    "bindE (py_getitem c ''buffer'') (\<lambda>b. py_getitem b ''fields'') = Inr (JArr fs)"
  using assms
  by (auto simp: compute_fields_def py_getitem_def bindE_def
      split: sum.splits json.splits option.splits)

text \<open>
  The function on a document whose field list is a list.
\<close>

lemma comp_buff_def_fields:
  assumes "compute_fields comp_json = Some fs"
  shows "amberscript_comp_buff_def comp_json make_empty_buffer =
     bindE (check (length fs > 0) (AssertionError ''Compute shader test with empty SSBO'')) (\<lambda>_.
     bindE (mapE field_type fs) (\<lambda>types.
     bindE (check (length (py_set types) = 1) (AssertionError ''All field types must be the same'')) (\<lambda>_.
     bindE (bindE (py_getitem_index (JArr fs) 0) (\<lambda>f. py_getitem f ''type'')) (\<lambda>ssbo_type.
     bindE (table_lookup ssbo_types ssbo_type) (\<lambda>found.
     case found of
       None \<Rightarrow> Inl (ValueError (''Unsupported SSBO datum type: '' @ py_str ssbo_type))
     | Some ssbo_type_amber \<Rightarrow>
     bindE (mapE (\<lambda>field. py_getitem field ''data'') fs) (\<lambda>field_data.
     bindE (mapE py_iter field_data) (\<lambda>chained.
       if make_empty_buffer then
         (case map py_str (concat chained) of
            [] \<Rightarrow> Inl IndexError
          | first # _ \<Rightarrow>
              Inr (''BUFFER {} DATA_TYPE '' @ ssbo_type_amber @ '' SIZE ''
                   @ str_nat (length (map py_str (concat chained))) @ '' '' @ first @ ''\<newline>''))
       else
         Inr (''BUFFER {} DATA_TYPE '' @ ssbo_type_amber @ '' DATA\<newline>''
              @ '' '' @ join '' '' (map py_str (concat chained)) @ ''\<newline>''
              @ ''END\<newline>''))))))))"
proof -
  from assms obtain kvs c where c: "comp_json = JObj kvs" "map_of kvs ''$compute'' = Some c"
    "bindE (py_getitem c ''buffer'') (\<lambda>b. py_getitem b ''fields'') = Inr (JArr fs)"
    by (rule compute_fields_Some)
  from c(2) have k: "''$compute'' \<in> fst ` set kvs"
    by (metis domI dom_map_of_conv_image_fst)
  have g: "py_getitem comp_json ''$compute'' = Inr c"
    using c by (simp add: py_getitem_def)
  show ?thesis
    unfolding amberscript_comp_buff_def_def
    using k by (simp add: c(1) py_keys_def check_def g [unfolded c(1)] c(3) py_len_def py_iter_def Let_def)
qed

lemma mapE_field_type:
  assumes "\<forall>f\<in>set fs. field_type_name f \<noteq> None"
  shows "mapE field_type fs = Inr (map (\<lambda>f. JStr (the (field_type_name f))) fs)"
  using assms by (intro mapE_all_Inr) (auto simp: field_type_JStr)

lemma mapE_field_data:
  assumes "\<forall>f\<in>set fs. field_data_list f \<noteq> None"
  shows "mapE (\<lambda>f. py_getitem f ''data'') fs = Inr (map (\<lambda>f. JArr (the (field_data_list f))) fs)"
  using assms by (intro mapE_all_Inr) (auto simp: field_data_list_Some)

lemma mapE_py_iter_JArr: "mapE py_iter (map (\<lambda>f. JArr (g f)) fs) = Inr (map g fs)"
  by (induction fs) (simp_all add: py_iter_def)

lemma flattened_data_eq:
  assumes "\<forall>f\<in>set fs. field_data_list f \<noteq> None"
  shows "concat (map (\<lambda>f. the (field_data_list f)) fs) = flattened_data fs"
  using assms by (induction fs) (auto simp: flattened_data_def)

lemma first_field_type:
  assumes "fs \<noteq> []" "\<forall>f\<in>set fs. field_type_name f = Some t"
  shows "bindE (py_getitem_index (JArr fs) 0) (\<lambda>f. py_getitem f ''type'') = Inr (JStr t)"
  using assms by (cases fs) (simp_all add: py_getitem_index_def field_type_name_Some)

lemma one_type_set:
  assumes "fs \<noteq> []" "\<forall>f\<in>set fs. field_type_name f = Some t"
  shows "length (py_set (map (\<lambda>f. JStr (the (field_type_name f))) fs)) = 1"
proof -
  have "map (\<lambda>f. JStr (the (field_type_name f))) fs = map JStr (map (\<lambda>f. t) fs)"
    using assms(2) by simp
  moreover have "set (map (\<lambda>f. t) fs) = {t}"
    using assms(1) by (cases fs) auto
  ultimately show ?thesis
    by (simp add: length_py_set_JStr del: map_map)
qed

text \<open>
  The function on a non-empty list of fields that all have the type name \<open>t\<close>.
\<close>

lemma comp_buff_def_one_type:
  assumes "compute_fields comp_json = Some fs" and "fs \<noteq> []"
    and "\<forall>f\<in>set fs. field_type_name f = Some t"
  shows "amberscript_comp_buff_def comp_json make_empty_buffer =
     (case map_of ssbo_types t of
        None \<Rightarrow> Inl (ValueError (''Unsupported SSBO datum type: '' @ t))
      | Some ssbo_type_amber \<Rightarrow>
          bindE (mapE (\<lambda>field. py_getitem field ''data'') fs) (\<lambda>field_data.
          bindE (mapE py_iter field_data) (\<lambda>chained.
            if make_empty_buffer then
              (case map py_str (concat chained) of
                 [] \<Rightarrow> Inl IndexError
               | first # _ \<Rightarrow>
                   Inr (''BUFFER {} DATA_TYPE '' @ ssbo_type_amber @ '' SIZE ''
                        @ str_nat (length (map py_str (concat chained))) @ '' '' @ first @ ''\<newline>''))
            else
              Inr (''BUFFER {} DATA_TYPE '' @ ssbo_type_amber @ '' DATA\<newline>''
                   @ '' '' @ join '' '' (map py_str (concat chained)) @ ''\<newline>''
                   @ ''END\<newline>''))))"
proof -
  have n: "\<forall>f\<in>set fs. field_type_name f \<noteq> None"
    using assms(3) by simp
  show ?thesis
    unfolding comp_buff_def_fields [OF assms(1)] mapE_field_type [OF n]
    using assms(2)
    by (simp add: check_def one_type_set [OF assms(2,3)] first_field_type [OF assms(2,3)]
        table_lookup_JStr py_str_def split: option.splits)
qed

lemma compute_fields_compute_job [simp]: "compute_fields (compute_job g fs) = Some fs"
  by (simp add: compute_fields_def compute_job_def py_getitem_def)

lemma field_type_name_ssbo_field [simp]: "field_type_name (ssbo_field t d) = Some t"
  by (simp add: field_type_name_def ssbo_field_def py_getitem_def)

lemma field_data_list_ssbo_field [simp]: "field_data_list (ssbo_field t d) = Some d"
  by (simp add: field_data_list_def ssbo_field_def py_getitem_def)

subsection \<open>Uniforms\<close>

lemma uniform_types_supported: "uniform_types = supported_setters"
  by (simp add: uniform_types_def supported_setters_def vector_token_def matrix_setter_def
      str_nat_digit digit_char_def)

text \<open>
  The loops with their accumulator are the concatenation of what each pass adds.
\<close>

lemma uniform_buffer_def_loop_eq:
  "uniform_buffer_def_loop prefix kvs result =
     bindE (mapE (uniform_declaration prefix) (filter is_uniform kvs)) (\<lambda>ds. Inr (result @ concat ds))"
proof (induction kvs arbitrary: result)
  case Nil
  then show ?case by simp
next
  case (Cons kv kvs)
  obtain name entry where kv: "kv = (name, entry)" by (cases kv)
  show ?case
  proof (cases "name = ''$compute''")
    case True
    then show ?thesis by (simp add: kv Cons.IH is_uniform_def)
  next
    case False
    show ?thesis
    proof (cases "uniform_declaration prefix kv")
      case (Inl e)
      then show ?thesis
        using False
        by (auto simp: kv is_uniform_def uniform_declaration_def bindE_def Let_def
            split: sum.splits option.splits)
    next
      case (Inr d)
      then show ?thesis
        using False
        by (auto simp: kv is_uniform_def uniform_declaration_def bindE_def Let_def Cons.IH
            declaration_text_def foldl_append_args [where f = "\<lambda>arg. '' '' @ py_str arg", simplified]
            split: sum.splits option.splits)
    qed
  qed
qed

lemma uniform_buffer_bind_loop_eq:
  "uniform_buffer_bind_loop prefix kvs result =
     bindE (mapE (uniform_binding prefix) (filter is_uniform kvs)) (\<lambda>bs. Inr (result @ concat bs))"
proof (induction kvs arbitrary: result)
  case Nil
  then show ?case by simp
next
  case (Cons kv kvs)
  obtain name entry where kv: "kv = (name, entry)" by (cases kv)
  show ?case
    by (cases "py_getitem entry ''binding''")
      (auto simp: kv is_uniform_def uniform_binding_def bindE_def Cons.IH split: sum.splits)
qed

lemma uniform_buffer_def_eq:
  "amberscript_uniform_buffer_def (JObj kvs) prefix =
     bindE (mapE (uniform_declaration prefix) (filter is_uniform kvs))
       (\<lambda>ds. Inr (''# uniforms for '' @ prefix @ ''\<newline>\<newline>'' @ concat ds))"
  by (simp add: amberscript_uniform_buffer_def_def py_items_def uniform_buffer_def_loop_eq)

lemma entry_func_Some: "entry_func entry = Some f \<Longrightarrow> py_getitem entry ''func'' = Inr (JStr f)"
  by (auto simp: entry_func_def split: sum.splits json.splits)

lemma entry_args_Some: "entry_args entry = Some as \<Longrightarrow> py_getitem entry ''args'' = Inr (JArr as)"
  by (auto simp: entry_args_def split: sum.splits json.splits)

lemma uniform_declaration_wf:
  assumes "entry_func (snd kv) = Some f" and "entry_args (snd kv) = Some as"
  shows "uniform_declaration prefix kv =
           (case map_of uniform_types f of
              None \<Rightarrow> Inl (ValueError (''Error: unknown uniform type for function: '' @ f))
            | Some uniform_type \<Rightarrow> Inr (declaration_text prefix (fst kv) uniform_type as))"
  by (simp add: uniform_declaration_def entry_func_Some [OF assms(1)] entry_args_Some [OF assms(2)]
      table_lookup_JStr unknown_uniform_type_def py_iter_def split: option.splits)

lemma entry_func_uniform_entry [simp]: "entry_func (uniform_entry f a b) = Some f"
  by (simp add: entry_func_def uniform_entry_def py_getitem_def)

lemma entry_args_uniform_entry [simp]: "entry_args (uniform_entry f a b) = Some a"
  by (simp add: entry_args_def uniform_entry_def py_getitem_def)

subsection \<open>Comments, the header and the job loop\<close>

lemma pop_leading_empty_eq:
  "pop_leading_empty ls =
     (if list_all (\<lambda>l. l = []) ls then Inl IndexError else Inr (dropWhile (\<lambda>l. l = []) ls))"
  by (induction ls) simp_all

lemma pop_trailing_empty_snoc:
  "pop_trailing_empty (ls @ [l]) = (if l = [] then pop_trailing_empty ls else Inr (ls @ [l]))"
  by (subst pop_trailing_empty.simps) simp

lemma pop_trailing_empty_eq:
  "pop_trailing_empty ls =
     (if list_all (\<lambda>l. l = []) ls then Inl IndexError
      else Inr (rev (dropWhile (\<lambda>l. l = []) (rev ls))))"
proof (induction ls rule: rev_induct)
  case Nil
  then show ?case by (simp add: pop_trailing_empty.simps)
next
  case (snoc l ls)
  then show ?case by (simp add: pop_trailing_empty_snoc)
qed

lemma dropWhile_not_all: "\<not> list_all P ls \<Longrightarrow> \<not> list_all P (dropWhile P ls)"
  by (induction ls) auto

lemma get_text_as_comment_eq:
  "get_text_as_comment txt =
     (if only_empty_lines txt then Inl IndexError else Inr (comment_block txt))"
  by (simp add: get_text_as_comment_def pop_leading_empty_eq pop_trailing_empty_eq
      only_empty_lines_def comment_block_def strip_empty_lines_def dropWhile_not_all)

lemma only_empty_lines_Nil: "only_empty_lines []"
  by (simp add: only_empty_lines_def)

text \<open>
  The header is its sections in order: the first section that raises decides the
  result, otherwise the texts are concatenated.
\<close>

lemma header_sections_eq:
  "get_amber_script_header s =
     bindE (mapE (\<lambda>section. section) (header_sections s)) (\<lambda>texts. Inr (concat texts))"
  by (cases "nonempty (copyright_header_text s)"; cases "nonempty (comment_text s)";
      cases "get_text_as_comment (the (nonempty (copyright_header_text s)))";
      cases "get_text_as_comment (the (nonempty (comment_text s)))")
    (simp_all add: get_amber_script_header_def header_sections_def copyright_section_def
      generated_section_def graphics_fuzz_section_def short_description_section_def
      comment_section_def spirv_opt_section_def fence_timeout_section_def Let_def
      split: option.splits)

text \<open>
  What a job adds to the script does not depend on the text before it.
\<close>

lemma graphics_job_body_append:
  "graphics_job_body job result = bindE (graphics_job_body job []) (\<lambda>t. Inr (result @ t))"
  by (cases "get_amber_script_shader_def (vertex_shader job) (name_prefix job @ ''_vertex_shader'')";
      cases "get_amber_script_shader_def (fragment_shader job) (name_prefix job @ ''_fragment_shader'')")
    (simp_all add: graphics_job_body_def Let_def)

lemma graphics_jobs_loop_two:
  "graphics_jobs_loop [r, v] header =
     bindE (graphics_job_body r []) (\<lambda>reference_part.
     bindE (graphics_job_body v []) (\<lambda>variant_part.
     Inr (header @ reference_part @ variant_part)))"
proof (cases "graphics_job_body r []")
  case (Inl e)
  then show ?thesis
    by (simp add: graphics_job_body_append [of r header])
next
  case (Inr a)
  then show ?thesis
    by (cases "graphics_job_body v []")
      (simp_all add: graphics_job_body_append [of r header] graphics_job_body_append [of v "header @ a"])
qed

section \<open>Properties\<close>

subsection \<open>The graphics script\<close>

text \<open>
  C1. For a test whose reference and variant are both graphics jobs, the loop over
  \<^verbatim>\<open>range(1, len(jobs))\<close> appends exactly one comparison directive. It names the
  reference's framebuffer first and the variant's second, which is how the script compares
  the variant against the reference, and it ends with the tolerance 7. The script is the
  header, the text of the reference, the text of the variant, that one directive and the
  configured extra commands, in this order; it is returned whenever the header and the
  two job texts are.
\<close>

theorem C1_one_comparison:
  assumes "reference t = Some (GraphicsJob r)" and "variant t = GraphicsJob v"
  shows "framebuffer_comparisons [r, v] = [comparison_directive (name_prefix r) (name_prefix v)] \<and>
    graphics_shader_job_amber_test_to_amber_script t settings =
      bindE (get_amber_script_header settings) (\<lambda>header.
      bindE (graphics_job_body r []) (\<lambda>reference_part.
      bindE (graphics_job_body v []) (\<lambda>variant_part.
      Inr (header @ reference_part @ variant_part
           @ comparison_directive (name_prefix r) (name_prefix v)
           @ (case nonempty (extra_commands settings) of Some extra \<Rightarrow> extra | None \<Rightarrow> [])))))"
proof
  show c: "framebuffer_comparisons [r, v] = [comparison_directive (name_prefix r) (name_prefix v)]"
    by (simp add: framebuffer_comparisons_def comparison_directive_def)
  show "graphics_shader_job_amber_test_to_amber_script t settings =
      bindE (get_amber_script_header settings) (\<lambda>header.
      bindE (graphics_job_body r []) (\<lambda>reference_part.
      bindE (graphics_job_body v []) (\<lambda>variant_part.
      Inr (header @ reference_part @ variant_part
           @ comparison_directive (name_prefix r) (name_prefix v)
           @ (case nonempty (extra_commands settings) of Some extra \<Rightarrow> extra | None \<Rightarrow> [])))))"
    unfolding graphics_shader_job_amber_test_to_amber_script_def
    by (cases "get_amber_script_header settings"; cases "graphics_job_body r []";
        cases "graphics_job_body v []")
      (simp_all add: assms c Let_def graphics_jobs_loop_two del: graphics_jobs_loop.simps
        split: option.splits)
qed

theorem C1_witness:
  "graphics_shader_job_amber_test_to_amber_script
     \<lparr>reference = Some (GraphicsJob (example_graphics_job ''reference'')),
      variant = GraphicsJob (example_graphics_job ''variant'')\<rparr>
     (default_settings\<lparr>use_default_fence_timeout := True, extra_commands := Some ''# done\<newline>''\<rparr>)
   = Inr (''#!amber\<newline>'' @ example_job_text ''reference'' @ example_job_text ''variant''
          @ ''EXPECT reference_framebuffer RMSE_BUFFER variant_framebuffer TOLERANCE 7''
          @ ''# done\<newline>'')"
  using C1_one_comparison
    [of "\<lparr>reference = Some (GraphicsJob (example_graphics_job ''reference'')),
          variant = GraphicsJob (example_graphics_job ''variant'')\<rparr>"
      "example_graphics_job ''reference''" "example_graphics_job ''variant''"
      "default_settings\<lparr>use_default_fence_timeout := True, extra_commands := Some ''# done\<newline>''\<rparr>"]
  by (simp add: get_amber_script_header_def default_settings_def nonempty_def graphics_job_body_def
      get_amber_script_shader_def_def example_graphics_job_def ShaderType_value_def
      comparison_directive_def example_job_text_def)

subsection \<open>The compute buffer\<close>

text \<open>
  C2 does not hold as it is stated. A non-empty list of fields of one supported type can
  have no data at all: then the flattened sequence is empty, and reading its first element
  raises \<^verbatim>\<open>IndexError\<close>.
\<close>

theorem C2_counterexample:
  "amberscript_comp_buff_def
     (compute_job (JArr [JInt 1, JInt 1, JInt 1]) [ssbo_field ''int'' []]) True
   = Inl IndexError"
  by (simp add: amberscript_comp_buff_def_def compute_job_def ssbo_field_def py_getitem_def
      py_iter_def py_keys_def check_def py_len_def field_type_def py_hashable_def py_set_def
      py_set_add_def py_getitem_index_def table_lookup_def ssbo_types_def)

text \<open>
  C2, as amended. For a compute-metadata block with a non-empty list of fields, all of one supported
  type, whose data lists hold at least one element between them, the function called with
  \<^verbatim>\<open>make_empty_buffer=True\<close> returns one declaration: its size is the number of
  elements of the flattened data and its fill value is the first of them.
\<close>

theorem C2_empty_buffer:
  assumes "compute_fields comp_json = Some fs" and "fs \<noteq> []"
    and "\<forall>f\<in>set fs. field_type_name f = Some t"
    and "map_of ssbo_types t = Some tok"
    and "\<forall>f\<in>set fs. field_data_list f \<noteq> None"
    and "flattened_data fs \<noteq> []"
  shows "amberscript_comp_buff_def comp_json True =
           Inr (''BUFFER {} DATA_TYPE '' @ tok @ '' SIZE '' @ str_nat (length (flattened_data fs))
                @ '' '' @ py_str (hd (flattened_data fs)) @ ''\<newline>'')"
proof -
  obtain x xs where x: "flattened_data fs = x # xs"
    using assms(6) by (cases "flattened_data fs") auto
  show ?thesis
    unfolding comp_buff_def_one_type [OF assms(1,2,3)] mapE_field_data [OF assms(5)]
    by (simp add: assms(4) mapE_py_iter_JArr flattened_data_eq [OF assms(5)] x)
qed

theorem C2_witness:
  "amberscript_comp_buff_def
     (compute_job (JArr [JInt 12, JInt 13, JInt 14])
        [ssbo_field ''int'' [JInt 0], ssbo_field ''int'' [JInt 1, JInt 2]]) True
   = Inr ''BUFFER {} DATA_TYPE int32 SIZE 3 0\<newline>''"
  using C2_empty_buffer
    [of "compute_job (JArr [JInt 12, JInt 13, JInt 14])
           [ssbo_field ''int'' [JInt 0], ssbo_field ''int'' [JInt 1, JInt 2]]"
      "[ssbo_field ''int'' [JInt 0], ssbo_field ''int'' [JInt 1, JInt 2]]" "''int''" "''int32''"]
  by (simp add: ssbo_types_def flattened_data_def str_nat_digit digit_char_def py_str_def str_int_def)

text \<open>
  C4. Let the field list of the compute-metadata block be a list. When it is empty the
  function raises the assertion error of the empty SSBO; when its fields all have a type
  name and these names are not exactly one, it raises the assertion error of the mixed
  types, whatever the number of fields. Either way, and for both values of
  \<^verbatim>\<open>make_empty_buffer\<close>, the result is the exception and no text. The specification calls
  both errors \<^verbatim>\<open>MalformedComputeBuffer\<close>; in the source they are \<^verbatim>\<open>AssertionError\<close>.
\<close>

theorem C4_malformed:
  assumes "compute_fields comp_json = Some fs"
  shows "(fs = [] \<longrightarrow>
            amberscript_comp_buff_def comp_json make_empty_buffer =
              Inl (AssertionError ''Compute shader test with empty SSBO'')) \<and>
         (fs \<noteq> [] \<and> (\<forall>f\<in>set fs. field_type_name f \<noteq> None) \<and>
            card (field_type_name ` set fs) \<noteq> 1 \<longrightarrow>
            amberscript_comp_buff_def comp_json make_empty_buffer =
              Inl (AssertionError ''All field types must be the same''))"
proof (intro conjI impI)
  assume "fs = []"
  then show "amberscript_comp_buff_def comp_json make_empty_buffer =
      Inl (AssertionError ''Compute shader test with empty SSBO'')"
    unfolding comp_buff_def_fields [OF assms] by (simp add: check_def)
next
  assume a: "fs \<noteq> [] \<and> (\<forall>f\<in>set fs. field_type_name f \<noteq> None) \<and>
            card (field_type_name ` set fs) \<noteq> 1"
  then have n: "\<forall>f\<in>set fs. field_type_name f \<noteq> None" by simp
  have "map (\<lambda>f. JStr (the (field_type_name f))) fs = map JStr (map (\<lambda>f. the (field_type_name f)) fs)"
    by simp
  then have "length (py_set (map (\<lambda>f. JStr (the (field_type_name f))) fs))
      = card ((\<lambda>f. the (field_type_name f)) ` set fs)"
    by (simp add: length_py_set_JStr del: map_map)
  moreover have "card ((\<lambda>f. the (field_type_name f)) ` set fs) = card (field_type_name ` set fs)"
  proof -
    have "field_type_name ` set fs = Some ` ((\<lambda>f. the (field_type_name f)) ` set fs)"
      using n by (force simp: image_iff)
    then show ?thesis
      by (simp add: card_image)
  qed
  ultimately have "length (py_set (map (\<lambda>f. JStr (the (field_type_name f))) fs)) \<noteq> 1"
    using a by simp
  then show "amberscript_comp_buff_def comp_json make_empty_buffer =
      Inl (AssertionError ''All field types must be the same'')"
    unfolding comp_buff_def_fields [OF assms] mapE_field_type [OF n]
    using a by (simp add: check_def)
qed

theorem C4_witness:
  "amberscript_comp_buff_def (compute_job (JArr [JInt 1, JInt 1, JInt 1]) []) False
     = Inl (AssertionError ''Compute shader test with empty SSBO'') \<and>
   amberscript_comp_buff_def
     (compute_job (JArr [JInt 1, JInt 1, JInt 1])
        [ssbo_field ''int'' [JInt 0], ssbo_field ''float'' [JFloat 1 ''1.0''], ssbo_field ''int'' [JInt 2]])
     True = Inl (AssertionError ''All field types must be the same'')"
  using C4_malformed [of "compute_job (JArr [JInt 1, JInt 1, JInt 1]) []" "[]" False]
    C4_malformed
      [of "compute_job (JArr [JInt 1, JInt 1, JInt 1])
             [ssbo_field ''int'' [JInt 0], ssbo_field ''float'' [JFloat 1 ''1.0''], ssbo_field ''int'' [JInt 2]]"
        "[ssbo_field ''int'' [JInt 0], ssbo_field ''float'' [JFloat 1 ''1.0''], ssbo_field ''int'' [JInt 2]]"
        True]
  by (simp add: card_insert_if)

text \<open>
  C5 does not hold as it is stated. \<open>amberscript_comp_buff_def\<close> never calls
  \<open>translate_type_for_amber\<close>, and \<^verbatim>\<open>bool\<close> is no key of its table, so a field of
  boolean type is rejected.
\<close>

theorem C5_counterexample:
  "amberscript_comp_buff_def
     (compute_job (JArr [JInt 1, JInt 1, JInt 1]) [ssbo_field ''bool'' [JInt 1]]) False
   = Inl (ValueError ''Unsupported SSBO datum type: bool'')"
  by (simp add: amberscript_comp_buff_def_def compute_job_def ssbo_field_def py_getitem_def
      py_iter_def py_keys_def check_def py_len_def field_type_def py_hashable_def py_set_def
      py_set_add_def py_getitem_index_def table_lookup_def ssbo_types_def py_str_def)

text \<open>
  C5, as amended. \<open>translate_type_for_amber\<close> maps \<^verbatim>\<open>bool\<close> to \<^verbatim>\<open>uint\<close> and every other type
  name to itself. The table of SSBO types has no entry for \<^verbatim>\<open>bool\<close>, and the translation
  is not applied when the field type is looked up: on a non-empty list of fields of type
  \<^verbatim>\<open>bool\<close> the function raises the error of the unsupported type, a \<^verbatim>\<open>ValueError\<close>.
\<close>

theorem C5_bool_rejected:
  "translate_type_for_amber ''bool'' = ''uint'' \<and>
   (\<forall>t. t \<noteq> ''bool'' \<longrightarrow> translate_type_for_amber t = t) \<and>
   map_of ssbo_types ''bool'' = None \<and>
   (compute_fields comp_json = Some fs \<and> fs \<noteq> [] \<and>
      (\<forall>f\<in>set fs. field_type_name f = Some ''bool'') \<longrightarrow>
      amberscript_comp_buff_def comp_json make_empty_buffer =
        Inl (ValueError ''Unsupported SSBO datum type: bool''))"
  by (auto simp: translate_type_for_amber_def ssbo_types_def comp_buff_def_one_type [of _ fs "''bool''"])

theorem C5_witness:
  "translate_type_for_amber ''vec2'' = ''vec2'' \<and>
   amberscript_comp_buff_def
     (compute_job (JArr [JInt 2, JInt 1, JInt 1])
        [ssbo_field ''bool'' [JBool True], ssbo_field ''bool'' [JBool False]]) True
   = Inl (ValueError ''Unsupported SSBO datum type: bool'')"
  using C5_bool_rejected
    [of "compute_job (JArr [JInt 2, JInt 1, JInt 1])
           [ssbo_field ''bool'' [JBool True], ssbo_field ''bool'' [JBool False]]"
      "[ssbo_field ''bool'' [JBool True], ssbo_field ''bool'' [JBool False]]" True]
  by simp

text \<open>
  C7. The compute job with the group counts 8, 1, 1 and one field of type \<^verbatim>\<open>int\<close>
  with the data 0, 0, 0, 0: the group counts are rendered \<^verbatim>\<open>8 1 1\<close>, the buffer with
  literal data lists four zeros, and the empty buffer has size 4 and is filled with one
  zero.
\<close>

theorem C7_round_trip:
  "amberscript_comp_num_groups_def
     (compute_job (JArr [JInt 8, JInt 1, JInt 1]) [ssbo_field ''int'' [JInt 0, JInt 0, JInt 0, JInt 0]])
     = Inr ''8 1 1'' \<and>
   amberscript_comp_buff_def
     (compute_job (JArr [JInt 8, JInt 1, JInt 1]) [ssbo_field ''int'' [JInt 0, JInt 0, JInt 0, JInt 0]])
     False = Inr ''BUFFER {} DATA_TYPE int32 DATA\<newline> 0 0 0 0\<newline>END\<newline>'' \<and>
   amberscript_comp_buff_def
     (compute_job (JArr [JInt 8, JInt 1, JInt 1]) [ssbo_field ''int'' [JInt 0, JInt 0, JInt 0, JInt 0]])
     True = Inr ''BUFFER {} DATA_TYPE int32 SIZE 4 0\<newline>''"
  by (simp add: amberscript_comp_num_groups_def_def amberscript_comp_buff_def_def compute_job_def
      ssbo_field_def py_getitem_def py_iter_def py_str_def str_int_def str_nat_digit digit_char_def
      py_keys_def check_def py_len_def field_type_def py_hashable_def py_set_def py_set_add_def
      py_getitem_index_def table_lookup_def ssbo_types_def)

text \<open>
  C10. The check of the field list does not make the flattened data non-empty. For a
  non-empty list of fields of one supported type whose data lists are all empty, the
  function with \<^verbatim>\<open>make_empty_buffer=True\<close> raises \<^verbatim>\<open>IndexError\<close> at the first flattened
  element, and with \<^verbatim>\<open>make_empty_buffer=False\<close> it returns a declaration that lists no
  value.
\<close>

theorem C10_empty_data:
  assumes "compute_fields comp_json = Some fs" and "fs \<noteq> []"
    and "\<forall>f\<in>set fs. field_type_name f = Some t"
    and "map_of ssbo_types t = Some tok"
    and "\<forall>f\<in>set fs. field_data_list f = Some []"
  shows "amberscript_comp_buff_def comp_json True = Inl IndexError \<and>
         amberscript_comp_buff_def comp_json False =
           Inr (''BUFFER {} DATA_TYPE '' @ tok @ '' DATA\<newline> \<newline>END\<newline>'')"
proof -
  have d: "\<forall>f\<in>set fs. field_data_list f \<noteq> None"
    using assms(5) by simp
  have e: "flattened_data fs = []"
    using assms(5) by (simp add: flattened_data_def)
  show ?thesis
    unfolding comp_buff_def_one_type [OF assms(1,2,3)] mapE_field_data [OF d]
    by (simp add: assms(4) mapE_py_iter_JArr flattened_data_eq [OF d] e)
qed

theorem C10_witness:
  "amberscript_comp_buff_def
     (compute_job (JArr [JInt 1, JInt 1, JInt 1]) [ssbo_field ''float'' [], ssbo_field ''float'' []])
     True = Inl IndexError \<and>
   amberscript_comp_buff_def
     (compute_job (JArr [JInt 1, JInt 1, JInt 1]) [ssbo_field ''float'' [], ssbo_field ''float'' []])
     False = Inr ''BUFFER {} DATA_TYPE float DATA\<newline> \<newline>END\<newline>''"
  using C10_empty_data
    [of "compute_job (JArr [JInt 1, JInt 1, JInt 1]) [ssbo_field ''float'' [], ssbo_field ''float'' []]"
      "[ssbo_field ''float'' [], ssbo_field ''float'' []]" "''float''" "''float''"]
  by (simp add: ssbo_types_def)

subsection \<open>Uniforms\<close>

text \<open>
  C3. The table of the source is the table of the supported setters: integer and float
  setters of one to four components and the matrix setters from 2x2 to 4x4. Let every
  uniform entry of the map have a setter name and an argument list. When every setter
  name is in the table, the function returns the declarations of the uniforms, each with
  the type token the table gives for its setter. When some setter name is not in the
  table, the function raises the error of the unknown uniform type for such a name; the
  specification calls it \<^verbatim>\<open>UnsupportedType\<close>, in the source it is a \<^verbatim>\<open>ValueError\<close>.
\<close>

theorem C3_setter_tokens:
  assumes "\<forall>kv\<in>set kvs. is_uniform kv \<longrightarrow> entry_func (snd kv) \<noteq> None \<and> entry_args (snd kv) \<noteq> None"
  shows "uniform_types = supported_setters \<and>
    ((\<forall>kv\<in>set kvs. is_uniform kv \<longrightarrow> setter_token (snd kv) \<noteq> None) \<longrightarrow>
       amberscript_uniform_buffer_def (JObj kvs) prefix =
         Inr (''# uniforms for '' @ prefix @ ''\<newline>\<newline>''
              @ concat (map (\<lambda>kv. declaration_text prefix (fst kv) (the (setter_token (snd kv)))
                                    (the (entry_args (snd kv))))
                          (filter is_uniform kvs)))) \<and>
    ((\<exists>kv\<in>set kvs. is_uniform kv \<and> setter_token (snd kv) = None) \<longrightarrow>
       (\<exists>kv\<in>set kvs. is_uniform kv \<and> setter_token (snd kv) = None \<and>
          amberscript_uniform_buffer_def (JObj kvs) prefix =
            Inl (ValueError (''Error: unknown uniform type for function: ''
                             @ the (entry_func (snd kv))))))"
proof (intro conjI impI)
  show "uniform_types = supported_setters"
    by (rule uniform_types_supported)
next
  assume ok: "\<forall>kv\<in>set kvs. is_uniform kv \<longrightarrow> setter_token (snd kv) \<noteq> None"
  have "mapE (uniform_declaration prefix) (filter is_uniform kvs) =
      Inr (map (\<lambda>kv. declaration_text prefix (fst kv) (the (setter_token (snd kv)))
                       (the (entry_args (snd kv)))) (filter is_uniform kvs))"
  proof (rule mapE_all_Inr)
    fix kv assume "kv \<in> set (filter is_uniform kvs)"
    then have kv: "kv \<in> set kvs" "is_uniform kv" by simp_all
    with assms obtain f as where f: "entry_func (snd kv) = Some f" "entry_args (snd kv) = Some as"
      by auto
    from ok kv f obtain tok where "map_of uniform_types f = Some tok"
      by (auto simp: setter_token_def)
    then show "uniform_declaration prefix kv =
        Inr (declaration_text prefix (fst kv) (the (setter_token (snd kv))) (the (entry_args (snd kv))))"
      by (simp add: uniform_declaration_wf [OF f] setter_token_def f)
  qed
  then show "amberscript_uniform_buffer_def (JObj kvs) prefix =
         Inr (''# uniforms for '' @ prefix @ ''\<newline>\<newline>''
              @ concat (map (\<lambda>kv. declaration_text prefix (fst kv) (the (setter_token (snd kv)))
                                    (the (entry_args (snd kv))))
                          (filter is_uniform kvs)))"
    by (simp add: uniform_buffer_def_eq)
next
  assume "\<exists>kv\<in>set kvs. is_uniform kv \<and> setter_token (snd kv) = None"
  then obtain kv where kv: "kv \<in> set kvs" "is_uniform kv" "setter_token (snd kv) = None"
    by blast
  with assms obtain f as where f: "entry_func (snd kv) = Some f" "entry_args (snd kv) = Some as"
    by auto
  with kv have "\<exists>e. uniform_declaration prefix kv = Inl e"
    by (simp add: uniform_declaration_wf [OF f] setter_token_def)
  with kv have "\<exists>x\<in>set (filter is_uniform kvs). \<exists>e. uniform_declaration prefix x = Inl e"
    by (intro bexI [of _ kv]) simp_all
  from mapE_error [OF this] obtain x e where x: "x \<in> set kvs" "is_uniform x"
    "uniform_declaration prefix x = Inl e"
    "mapE (uniform_declaration prefix) (filter is_uniform kvs) = Inl e"
    by auto
  from assms x obtain g bs where g: "entry_func (snd x) = Some g" "entry_args (snd x) = Some bs"
    by auto
  from x(3) have "map_of uniform_types g = None \<and>
      e = ValueError (''Error: unknown uniform type for function: '' @ g)"
    by (auto simp: uniform_declaration_wf [OF g] split: option.splits)
  then have "is_uniform x \<and> setter_token (snd x) = None \<and>
          amberscript_uniform_buffer_def (JObj kvs) prefix =
            Inl (ValueError (''Error: unknown uniform type for function: ''
                             @ the (entry_func (snd x))))"
    using x by (simp add: uniform_buffer_def_eq setter_token_def g)
  with x(1) show "\<exists>kv\<in>set kvs. is_uniform kv \<and> setter_token (snd kv) = None \<and>
          amberscript_uniform_buffer_def (JObj kvs) prefix =
            Inl (ValueError (''Error: unknown uniform type for function: ''
                             @ the (entry_func (snd kv))))"
    by blast
qed

theorem C3_witness:
  "amberscript_uniform_buffer_def
     (JObj [(''res'', uniform_entry ''glUniform2f'' [JFloat 256 ''256.0'', JFloat 256 ''256.0''] 2),
            (''$compute'', JObj [(''num_groups'', JArr [JInt 1, JInt 1, JInt 1])]),
            (''m'', uniform_entry ''glUniformMatrix2x3fv'' [JInt 0, JInt 1, JInt 2, JInt 3, JInt 4, JInt 5] 0)])
     ''reference''
   = Inr (''# uniforms for reference\<newline>\<newline>''
          @ ''# res\<newline>BUFFER reference_res DATA_TYPE vec2<float> DATA\<newline> 256.0 256.0\<newline>END\<newline>''
          @ ''# m\<newline>BUFFER reference_m DATA_TYPE mat2x3<float> DATA\<newline> 0 1 2 3 4 5\<newline>END\<newline>'') \<and>
   amberscript_uniform_buffer_def
     (JObj [(''res'', uniform_entry ''glUniform2f'' [JFloat 256 ''256.0'', JFloat 256 ''256.0''] 2),
            (''flag'', uniform_entry ''glUniform1ui'' [JInt 1] 3)])
     ''variant''
   = Inl (ValueError ''Error: unknown uniform type for function: glUniform1ui'')"
  using C3_setter_tokens
    [of "[(''res'', uniform_entry ''glUniform2f'' [JFloat 256 ''256.0'', JFloat 256 ''256.0''] 2),
          (''$compute'', JObj [(''num_groups'', JArr [JInt 1, JInt 1, JInt 1])]),
          (''m'', uniform_entry ''glUniformMatrix2x3fv'' [JInt 0, JInt 1, JInt 2, JInt 3, JInt 4, JInt 5] 0)]"
      "''reference''", THEN conjunct2]
    C3_setter_tokens
    [of "[(''res'', uniform_entry ''glUniform2f'' [JFloat 256 ''256.0'', JFloat 256 ''256.0''] 2),
          (''flag'', uniform_entry ''glUniform1ui'' [JInt 1] 3)]"
      "''variant''", THEN conjunct2]
  by (simp add: is_uniform_def setter_token_def uniform_types_def declaration_text_def py_str_def
      str_int_def str_nat_digit digit_char_def)

text \<open>
  C8. On every uniform map, the definitions are the heading followed by one declaration
  for each item whose key is not \<^verbatim>\<open>$compute\<close>, and the bindings are one directive for
  each such item, in the order of the map's items; an item that raises ends the function
  with its exception. So both functions return on a map what they return on the map
  without the \<^verbatim>\<open>$compute\<close> key.
\<close>

theorem C8_skip_compute:
  "amberscript_uniform_buffer_def (JObj kvs) prefix =
     bindE (mapE (uniform_declaration prefix) (filter is_uniform kvs))
       (\<lambda>ds. Inr (''# uniforms for '' @ prefix @ ''\<newline>\<newline>'' @ concat ds)) \<and>
   amberscript_uniform_buffer_bind (JObj kvs) prefix =
     bindE (mapE (uniform_binding prefix) (filter is_uniform kvs)) (\<lambda>bs. Inr (concat bs)) \<and>
   amberscript_uniform_buffer_def (JObj kvs) prefix =
     amberscript_uniform_buffer_def (JObj (filter is_uniform kvs)) prefix \<and>
   amberscript_uniform_buffer_bind (JObj kvs) prefix =
     amberscript_uniform_buffer_bind (JObj (filter is_uniform kvs)) prefix"
  by (simp add: amberscript_uniform_buffer_def_def amberscript_uniform_buffer_bind_def py_items_def
      uniform_buffer_def_loop_eq uniform_buffer_bind_loop_eq)

subsection \<open>The header\<close>

text \<open>
  C6. The header is the concatenation of its eight sections in their fixed order.
  Changing one setting replaces the one section that setting controls and leaves every
  other section, and the order, as it was: the copyright text, the two comment flags, the
  short description, the comment text and the fence timeout flag each control one
  section, the optimizer arguments and the optimizer hash control the optimizer section
  together, and the extra commands control no section of the header.
\<close>

theorem C6_header_sections:
  "get_amber_script_header s =
     bindE (mapE (\<lambda>section. section) (header_sections s)) (\<lambda>texts. Inr (concat texts)) \<and>
   header_sections (s\<lparr>copyright_header_text := c\<rparr>) = (header_sections s)[1 := copyright_section c] \<and>
   header_sections (s\<lparr>add_generated_comment := b\<rparr>) =
     (header_sections s)[2 := Inr (generated_section b)] \<and>
   header_sections (s\<lparr>add_graphics_fuzz_comment := b\<rparr>) =
     (header_sections s)[3 := Inr (graphics_fuzz_section b)] \<and>
   header_sections (s\<lparr>short_description := c\<rparr>) =
     (header_sections s)[4 := Inr (short_description_section c)] \<and>
   header_sections (s\<lparr>comment_text := c\<rparr>) = (header_sections s)[5 := comment_section c] \<and>
   header_sections (s\<lparr>spirv_opt_args := a\<rparr>) =
     (header_sections s)[6 := Inr (spirv_opt_section a (spirv_opt_hash s))] \<and>
   header_sections (s\<lparr>spirv_opt_hash := c\<rparr>) =
     (header_sections s)[6 := Inr (spirv_opt_section (spirv_opt_args s) c)] \<and>
   header_sections (s\<lparr>use_default_fence_timeout := b\<rparr>) =
     (header_sections s)[7 := Inr (fence_timeout_section b)] \<and>
   header_sections (s\<lparr>extra_commands := c\<rparr>) = header_sections s"
  by (simp add: header_sections_eq) (simp add: header_sections_def)

text \<open>
  C9 does not hold as it is stated. The empty text has only empty lines and
  \<open>get_text_as_comment\<close> raises on it, but the header treats an empty copyright text as
  absent and is returned.
\<close>

theorem C9_counterexample:
  "only_empty_lines [] \<and>
   get_text_as_comment [] = Inl IndexError \<and>
   get_amber_script_header (default_settings\<lparr>copyright_header_text := Some []\<rparr>)
     = Inr ''#!amber\<newline>\<newline>SET ENGINE_DATA fence_timeout_ms 60000\<newline>''"
  by (simp add: only_empty_lines_def get_text_as_comment_def get_amber_script_header_def
      default_settings_def nonempty_def AMBER_FENCE_TIMEOUT_MS_def str_nat.simps digit_char_def)

text \<open>
  C9, as amended. On a text with a non-empty line \<open>get_text_as_comment\<close> returns the comment block
  of the text without its leading and trailing empty lines. On a text with only empty
  lines, the empty text among them, it raises \<^verbatim>\<open>IndexError\<close>. The header raises that error
  when the copyright text or the comment text is not empty and has only empty lines; an
  empty copyright or comment text is treated as an absent one.
\<close>

theorem C9_blank_text:
  "(\<not> only_empty_lines txt \<longrightarrow> get_text_as_comment txt = Inr (comment_block txt)) \<and>
   (only_empty_lines txt \<longrightarrow> get_text_as_comment txt = Inl IndexError) \<and>
   only_empty_lines [] \<and>
   (only_empty_lines txt \<and> txt \<noteq> [] \<and>
      (copyright_header_text s = Some txt \<or> comment_text s = Some txt) \<longrightarrow>
      get_amber_script_header s = Inl IndexError) \<and>
   get_amber_script_header (s\<lparr>copyright_header_text := Some []\<rparr>) =
     get_amber_script_header (s\<lparr>copyright_header_text := None\<rparr>) \<and>
   get_amber_script_header (s\<lparr>comment_text := Some []\<rparr>) =
     get_amber_script_header (s\<lparr>comment_text := None\<rparr>)"
proof (intro conjI impI)
  assume a: "only_empty_lines txt \<and> txt \<noteq> [] \<and>
      (copyright_header_text s = Some txt \<or> comment_text s = Some txt)"
  then consider "copyright_header_text s = Some txt" | "comment_text s = Some txt"
    by blast
  then show "get_amber_script_header s = Inl IndexError"
  proof cases
    case 1
    then show ?thesis
      using a by (simp add: get_amber_script_header_def nonempty_def get_text_as_comment_eq)
  next
    case 2
    then show ?thesis
      using a
      by (cases "nonempty (copyright_header_text s)";
          cases "get_text_as_comment (the (nonempty (copyright_header_text s)))")
        (simp_all add: get_amber_script_header_def nonempty_def get_text_as_comment_eq Let_def
          split: option.splits if_splits)
  qed
qed (simp_all add: get_text_as_comment_eq only_empty_lines_Nil header_sections_eq
    header_sections_def copyright_section_def comment_section_def nonempty_def)

theorem C9_witness:
  "get_text_as_comment ''\<newline>Copyright 2019\<newline>  \<newline>\<newline>'' = Inr ''# Copyright 2019\<newline>#'' \<and>
   get_text_as_comment ''\<newline>\<newline>'' = Inl IndexError \<and>
   get_amber_script_header (default_settings\<lparr>comment_text := Some ''\<newline>''\<rparr>) = Inl IndexError"
  using C9_blank_text [of "''\<newline>Copyright 2019\<newline>  \<newline>\<newline>''" default_settings]
    C9_blank_text [of "''\<newline>\<newline>''" default_settings]
    C9_blank_text [of "''\<newline>''" "default_settings\<lparr>comment_text := Some ''\<newline>''\<rparr>"]
  by (simp add: only_empty_lines_def newline_def comment_block_def strip_empty_lines_def rstrip_def
      py_isspace_def default_settings_def)

end
